theory Spec2Isabelle
  imports Main "HOL-Library.Monad_Syntax"
begin

section \<open>Values of the Go program\<close>

text \<open>
  \<^verbatim>\<open>time.Duration\<close> is a count of nanoseconds and a \<^verbatim>\<open>time.Time\<close> is read here as
  nanoseconds since the Unix epoch. \<^verbatim>\<open>Time.Unix()\<close> is the number of whole seconds since
  the epoch (rounded towards minus infinity, as Go keeps the nanosecond part non-negative).
\<close>

type_synonym Duration = int
type_synonym Time = int

definition Add :: "Time \<Rightarrow> Duration \<Rightarrow> Time" where
  "Add t d = t + d"

definition Unix :: "Time \<Rightarrow> int" where
  "Unix t = t div 1000000000"

text \<open>
  Go errors. \<^verbatim>\<open>jwtError\<close> (a wrapped error with a status code, built by
  \<^verbatim>\<open>newJwtError(err, code)\<close>) is declared outside the files at hand; a \<^verbatim>\<open>*jwtError\<close> is
  itself passed where an \<^verbatim>\<open>error\<close> is expected (\<^verbatim>\<open>newJwtError(err, 500)\<close> in
  \<^verbatim>\<open>buildCredentialsFromClaims\<close>), hence the mutual recursion.
\<close>

datatype error =
    ErrorsNew string
  | ErrTokenExpired
  | ExternalError string
  | AsError jwtError
and jwtError = JwtError (err: error) (Type: int)

text \<open>
  Modelled from the spec: \<^verbatim>\<open>newJwtError\<close> is not among the source files; every error
  carries a status-code hint.
\<close>

definition newJwtError :: "error \<Rightarrow> int \<Rightarrow> jwtError" where
  "newJwtError e code = JwtError e code"

text \<open>
  \<^verbatim>\<open>errors.Is(err, jwtGo.ErrTokenExpired)\<close> on a \<^verbatim>\<open>*jwtError\<close>. A nil \<^verbatim>\<open>*jwtError\<close> is not the
  target and has nothing to unwrap, so the test is false on it. For a non-nil \<^verbatim>\<open>jwtError\<close>
  the wrapped error is searched, which is the reading most favourable to finding the target
  (the method set of \<^verbatim>\<open>jwtError\<close> is not among the source files; without an \<^verbatim>\<open>Unwrap\<close>
  method the test is false on every \<^verbatim>\<open>jwtError\<close>). The errors that
  \<^verbatim>\<open>validateCsrfStringAgainstCredentials\<close> returns wrap \<^verbatim>\<open>errors.New\<close> values only, so the
  two readings agree wherever the test is made.
\<close>

primrec isErrTokenExpired :: "error \<Rightarrow> bool"
  and jwtErrorIsExpired :: "jwtError \<Rightarrow> bool" where
  "isErrTokenExpired (ErrorsNew s) = False"
| "isErrTokenExpired ErrTokenExpired = True"
| "isErrTokenExpired (ExternalError s) = False"
| "isErrTokenExpired (AsError j) = jwtErrorIsExpired j"
| "jwtErrorIsExpired (JwtError e code) = isErrTokenExpired e"

definition errors_Is_ErrTokenExpired :: "jwtError option \<Rightarrow> bool" where
  "errors_Is_ErrTokenExpired e = (case e of None \<Rightarrow> False | Some j \<Rightarrow> jwtErrorIsExpired j)"

subsection \<open>Claim maps and the store\<close>

text \<open>
  \<^verbatim>\<open>jwtGo.MapClaims\<close> is \<^verbatim>\<open>map[string]interface{}\<close>: a Go map value is a reference to a
  table, or nil. Copying the value (\<^verbatim>\<open>authClaims := *claims\<close>) copies the reference, so the
  tables live in an explicit store and a \<^verbatim>\<open>MapClaims\<close> is an address or nil.
  A \<^verbatim>\<open>*jwtGo.MapClaims\<close> points to a variable that holds such a reference; no variable
  whose address is taken is assigned again, so the pointer is identified with the reference
  it points to.
\<close>

datatype claimValue = VString string | VInt64 int | VOther string

type_synonym addr = nat
type_synonym claimSet = "string \<rightharpoonup> claimValue"
type_synonym heap = "addr \<Rightarrow> claimSet"
type_synonym MapClaims = "addr option"

text \<open>
  The dynamic type of a \<^verbatim>\<open>jwtGo.Claims\<close> interface value: a pointer to a \<^verbatim>\<open>MapClaims\<close>,
  a \<^verbatim>\<open>MapClaims\<close> held by value, or the nil interface. The type assertion
  \<^verbatim>\<open>Claims.(*jwtGo.MapClaims)\<close> succeeds on the first only.
\<close>

datatype Claims = PtrMapClaims MapClaims | ValMapClaims MapClaims | NilClaims

definition assertPtrMapClaims :: "Claims \<Rightarrow> MapClaims option" where
  "assertPtrMapClaims cl = (case cl of PtrMapClaims m \<Rightarrow> Some m | _ \<Rightarrow> None)"

text \<open>
  Modelled from the spec: \<^verbatim>\<open>GetClaimString\<close> is not among the source files. It reads a
  claim that must be a string; a missing claim (also every read of a nil map) or a claim of
  another type is an error.
\<close>

definition GetClaimString :: "heap \<Rightarrow> MapClaims \<Rightarrow> string \<Rightarrow> error + string" where
  "GetClaimString h claims k =
     (case claims of
        None \<Rightarrow> Inl (ErrorsNew ''claim not found'')
      | Some a \<Rightarrow>
          (case h a k of
             None \<Rightarrow> Inl (ErrorsNew ''claim not found'')
           | Some (VString s) \<Rightarrow> Inr s
           | Some _ \<Rightarrow> Inl (ErrorsNew ''claim is not a string'')))"

text \<open>
  \<^verbatim>\<open>m[k] = v\<close>: a write through a nil map panics (\<open>None\<close>); otherwise the table at the
  map's address is updated in place.
\<close>

definition setClaim :: "heap \<Rightarrow> MapClaims \<Rightarrow> string \<Rightarrow> claimValue \<Rightarrow> heap option" where
  "setClaim h m k v = (case m of None \<Rightarrow> None | Some a \<Rightarrow> Some (h(a := (h a)(k \<mapsto> v))))"

subsection \<open>Tokens and credentials\<close>

record Token =
  Method :: "string option"
  Claims :: Claims
  Valid :: bool

record tokenOptions =
  ValidTime :: Duration
  SigningMethodString :: string
  Debug :: bool

record jwtToken =
  Token :: "Token option"
  ParseErr :: "error option"
  options :: tokenOptions

text \<open>
  The service object \<^verbatim>\<open>Auth\<close> is declared outside the files at hand; these are the fields
  that \<^verbatim>\<open>credentials.go\<close> reads from it.
\<close>

record Options =
  AuthTokenValidTime :: Duration
  RefreshTokenValidTime :: Duration
  SigningMethodString :: string
  VerifyOnlyServer :: bool
  UpdateTokenClaims :: "heap \<Rightarrow> MapClaims \<Rightarrow> MapClaims \<times> heap"
  Debug :: bool

record Auth =
  options :: Options
  checkTokenId :: "string \<Rightarrow> bool"
  verifyKey :: string

record credentialsOptions =
  AuthTokenValidTime :: Duration
  RefreshTokenValidTime :: Duration
  CheckTokenId :: "string \<Rightarrow> bool"
  SigningMethodString :: string
  VerifyOnlyServer :: bool
  UpdateTokenClaims :: "heap \<Rightarrow> MapClaims \<Rightarrow> MapClaims \<times> heap"
  Debug :: bool

record credentials =
  CsrfString :: string
  AuthToken :: "jwtToken option"
  RefreshToken :: "jwtToken option"
  options :: credentialsOptions

text \<open>
  What a call can touch besides the credentials: the store of claim tables, and a log of
  the calls made to the two collaborators (the revocation check \<^verbatim>\<open>CheckTokenId\<close> and the
  claims updater \<^verbatim>\<open>UpdateTokenClaims\<close>), in call order.
\<close>

datatype call = CheckTokenIdCall string | UpdateTokenClaimsCall MapClaims

record world =
  heap :: heap
  calls :: "call list"

text \<open>
  What a call reads from outside: the result of the one call of
  \<^verbatim>\<open>randomstrings.GenerateRandomString(32)\<close> and the two readings of \<^verbatim>\<open>time.Now()\<close>, in
  program order.
\<close>

record environment =
  GenerateRandomString :: "error + string"
  timeNow1 :: Time
  timeNow2 :: Time

section \<open>jwtToken.go\<close>

text \<open>
  The repository holds a second copy of this file that differs only in the claims type (a
  struct \<^verbatim>\<open>ClaimsType\<close> where this one has \<^verbatim>\<open>jwtGo.MapClaims\<close>); \<^verbatim>\<open>credentials.go\<close> is written
  against \<^verbatim>\<open>jwtGo.MapClaims\<close>, so that is the copy followed here.

  \<^verbatim>\<open>jwtGo.GetSigningMethod\<close> looks the name up in the library's registry; the name is taken
  to be registered (a method the library does not know is a setup error of the service,
  outside these files).
\<close>

definition GetSigningMethod :: "string \<Rightarrow> string option" where
  "GetSigningMethod name = Some name"

text \<open>\<^verbatim>\<open>jwtGo.NewWithClaims\<close>: an unsigned token over the given claims; \<open>Valid\<close> is unset.\<close>

definition NewWithClaims :: "string option \<Rightarrow> Claims \<Rightarrow> Token" where
  "NewWithClaims m cl = \<lparr>Method = m, Claims = cl, Valid = False\<rparr>"

definition newTokenWithClaims :: "credentials \<Rightarrow> MapClaims \<Rightarrow> Duration \<Rightarrow> jwtToken" where
  "newTokenWithClaims c claims validTime =
     \<lparr>Token = Some (NewWithClaims
                 (GetSigningMethod (credentialsOptions.SigningMethodString (credentials.options c)))
                 (PtrMapClaims claims)),
      ParseErr = None,
      options = \<lparr>ValidTime = validTime,
                 SigningMethodString = credentialsOptions.SigningMethodString (credentials.options c),
                 Debug = credentialsOptions.Debug (credentials.options c)\<rparr>\<rparr>"

text \<open>
  The key function handed to the parser: it refuses a token whose method is not the
  configured one.
\<close>

definition keyFunc :: "credentials \<Rightarrow> string \<Rightarrow> Token \<Rightarrow> error + string" where
  "keyFunc c key token =
     (if Method token \<noteq> GetSigningMethod (credentialsOptions.SigningMethodString (credentials.options c))
      then Inl (ErrorsNew ''incorrect singing method on token'')
      else Inr key)"

text \<open>
  \<^verbatim>\<open>jwtGo.ParseWithClaims\<close> is the library's; it is a parameter: given the wire string,
  the key function and the store, it yields a token or nil, an error or nil, and the store
  (it may allocate the parsed claims).
\<close>

type_synonym parser = "string \<Rightarrow> (Token \<Rightarrow> error + string) \<Rightarrow> heap \<Rightarrow> Token option \<times> error option \<times> heap"

text \<open>
  \<^verbatim>\<open>buildTokenWithClaimsFromString\<close>. When the parser yields no token, an empty token over
  \<^verbatim>\<open>new(jwtGo.MapClaims)\<close> (a pointer to a nil map) is put in its place, and the log line is
  built from \<^verbatim>\<open>err.Error()\<close> whether or not debugging is on: with no error either, that is a
  nil dereference (\<open>None\<close>).
\<close>

definition buildTokenWithClaimsFromString ::
  "parser \<Rightarrow> credentials \<Rightarrow> heap \<Rightarrow> string \<Rightarrow> string \<Rightarrow> Duration \<Rightarrow> (jwtToken \<times> heap) option" where
  "buildTokenWithClaimsFromString ParseWithClaims c h tokenString key validTime =
     (case ParseWithClaims tokenString (keyFunc c key) h of
        (token, perr, h') \<Rightarrow>
          (case (case token of
                   None \<Rightarrow> (case perr of
                               None \<Rightarrow> None
                             | Some e \<Rightarrow> Some \<lparr>Method = None, Claims = PtrMapClaims None, Valid = False\<rparr>)
                 | Some t \<Rightarrow> Some t) of
             None \<Rightarrow> None
           | Some t \<Rightarrow>
               Some (\<lparr>Token = Some t,
                      ParseErr = perr,
                      options = \<lparr>ValidTime = validTime,
                                 SigningMethodString = credentialsOptions.SigningMethodString (credentials.options c),
                                 Debug = credentialsOptions.Debug (credentials.options c)\<rparr>\<rparr>, h')))"

section \<open>credentials.go\<close>

definition generateNewCsrfString :: "environment \<Rightarrow> jwtError + string" where
  "generateNewCsrfString env =
     (case GenerateRandomString env of
        Inl e \<Rightarrow> Inl (newJwtError e 500)
      | Inr newCsrf \<Rightarrow> Inr newCsrf)"

text \<open>The seven assignments \<^verbatim>\<open>c.options.X = a.options.X\<close> (and \<^verbatim>\<open>a.checkTokenId\<close>).\<close>

definition optionsFromAuth :: "Auth \<Rightarrow> credentialsOptions" where
  "optionsFromAuth a =
     \<lparr>credentialsOptions.AuthTokenValidTime = Options.AuthTokenValidTime (Auth.options a),
      credentialsOptions.RefreshTokenValidTime = Options.RefreshTokenValidTime (Auth.options a),
      credentialsOptions.CheckTokenId = checkTokenId a,
      credentialsOptions.SigningMethodString = Options.SigningMethodString (Auth.options a),
      credentialsOptions.VerifyOnlyServer = Options.VerifyOnlyServer (Auth.options a),
      credentialsOptions.UpdateTokenClaims = Options.UpdateTokenClaims (Auth.options a),
      credentialsOptions.Debug = Options.Debug (Auth.options a)\<rparr>"

text \<open>
  Every operation returns \<open>None\<close> when the Go code panics (a nil dereference, a write
  through a nil map) and otherwise the returned \<^verbatim>\<open>*jwtError\<close> (\<open>None\<close> for nil) with the
  credentials and the world as the call leaves them. Lines written to the debug log are
  left out.
\<close>

type_synonym result = "(jwtError option \<times> credentials \<times> world) option"

text \<open>
  \<^verbatim>\<open>buildCredentialsFromClaims\<close>. The argument is the pointer \<^verbatim>\<open>claims\<close> (\<open>None\<close> for a
  nil pointer). Both \<^verbatim>\<open>authClaims := *claims\<close> and \<^verbatim>\<open>refreshClaimsClaims := *claims\<close> copy the
  map reference, not the table.
\<close>

definition buildCredentialsFromClaims ::
  "Auth \<Rightarrow> environment \<Rightarrow> world \<Rightarrow> credentials \<Rightarrow> MapClaims option \<Rightarrow> result" where
  "buildCredentialsFromClaims a env w c claims =
     (case generateNewCsrfString env of
        Inl e \<Rightarrow> Some (Some (newJwtError (AsError e) 500), c, w)
      | Inr newCsrfString \<Rightarrow>
          (let c1 = c\<lparr>CsrfString := newCsrfString, options := optionsFromAuth a\<rparr> in
           do {
             authClaims \<leftarrow> claims;
             h1 \<leftarrow> setClaim (heap w) authClaims ''csrf'' (VString newCsrfString);
             h2 \<leftarrow> setClaim h1 authClaims ''exp''
                    (VInt64 (Unix (Add (timeNow1 env) (Options.AuthTokenValidTime (Auth.options a)))));
             let c2 = c1\<lparr>AuthToken :=
                        Some (newTokenWithClaims c1 authClaims (Options.AuthTokenValidTime (Auth.options a)))\<rparr>;
             refreshClaimsClaims \<leftarrow> claims;
             h3 \<leftarrow> setClaim h2 refreshClaimsClaims ''csrf'' (VString newCsrfString);
             h4 \<leftarrow> setClaim h3 refreshClaimsClaims ''exp''
                    (VInt64 (Unix (Add (timeNow2 env) (Options.RefreshTokenValidTime (Auth.options a)))));
             let c3 = c2\<lparr>RefreshToken :=
                        Some (newTokenWithClaims c2 refreshClaimsClaims
                                (Options.RefreshTokenValidTime (Auth.options a)))\<rparr>;
             Some (None, c3, w\<lparr>heap := h4\<rparr>)
           }))"

definition buildCredentialsFromStrings ::
  "Auth \<Rightarrow> parser \<Rightarrow> world \<Rightarrow> credentials \<Rightarrow> string \<Rightarrow> string \<Rightarrow> string \<Rightarrow> result" where
  "buildCredentialsFromStrings a ParseWithClaims w c csrfString authTokenString refreshTokenString =
     (let c1 = c\<lparr>CsrfString := csrfString, options := optionsFromAuth a\<rparr> in
      do {
        (authTok, h1) \<leftarrow> buildTokenWithClaimsFromString ParseWithClaims c1 (heap w) authTokenString
                          (verifyKey a) (Options.AuthTokenValidTime (Auth.options a));
        let c2 = c1\<lparr>AuthToken := Some authTok\<rparr>;
        if refreshTokenString \<noteq> []
        then do {
          (refreshTok, h2) \<leftarrow> buildTokenWithClaimsFromString ParseWithClaims c2 h1 refreshTokenString
                                (verifyKey a) (Options.RefreshTokenValidTime (Auth.options a));
          Some (None, c2\<lparr>RefreshToken := Some refreshTok\<rparr>, w\<lparr>heap := h2\<rparr>)
        }
        else Some (None, c2, w\<lparr>heap := h1\<rparr>)
      })"

text \<open>
  \<^verbatim>\<open>validateCsrfStringAgainstCredentials\<close> reads only; \<open>None\<close> is the panic on a nil
  \<^verbatim>\<open>c.AuthToken\<close> or \<^verbatim>\<open>c.AuthToken.Token\<close>.
\<close>

definition validateCsrfStringAgainstCredentials :: "heap \<Rightarrow> credentials \<Rightarrow> jwtError option option" where
  "validateCsrfStringAgainstCredentials h c =
     do {
       authTok \<leftarrow> AuthToken c;
       tk \<leftarrow> Token authTok;
       Some (case assertPtrMapClaims (Claims tk) of
               None \<Rightarrow> Some (newJwtError (ErrorsNew ''cannot read token claims'') 500)
             | Some authTokenClaims \<Rightarrow>
                 (case GetClaimString h authTokenClaims ''csrf'' of
                    Inl e \<Rightarrow> Some (newJwtError (ErrorsNew ''CSRF token doesn't match value in auth token'') 401)
                  | Inr csrfString \<Rightarrow>
                      if CsrfString c = csrfString then None
                      else Some (newJwtError (ErrorsNew ''CSRF token doesn't match value in auth token'') 401)))
     }"

definition updateAuthTokenFromRefreshToken :: "environment \<Rightarrow> world \<Rightarrow> credentials \<Rightarrow> result" where
  "updateAuthTokenFromRefreshToken env w c =
     (case (case RefreshToken c of None \<Rightarrow> None | Some refreshTok \<Rightarrow> Token refreshTok) of
        None \<Rightarrow>
          Some (Some (newJwtError (ErrorsNew ''refresh token is invalid. Cannot refresh auth token'') 401), c, w)
      | Some tk \<Rightarrow>
          (case assertPtrMapClaims (Claims tk) of
             None \<Rightarrow> Some (Some (newJwtError (ErrorsNew ''cannot read refresh token claims'') 500), c, w)
           | Some refreshTokenClaims \<Rightarrow>
               (case GetClaimString (heap w) refreshTokenClaims ''csrf'' of
                  Inl e \<Rightarrow>
                    Some (Some (newJwtError (ErrorsNew ''CSRF token doesn't match value in refresh token'') 401), c, w)
                | Inr csrfString \<Rightarrow>
                    if CsrfString c = csrfString
                    then
                      (case GetClaimString (heap w) refreshTokenClaims ''id'' of
                         Inl e \<Rightarrow> Some (Some (newJwtError e 500), c, w)
                       | Inr ident \<Rightarrow>
                           (let w1 = w\<lparr>calls := calls w @ [CheckTokenIdCall ident]\<rparr> in
                            if CheckTokenId (credentials.options c) ident
                            then
                              if Valid tk
                              then
                                (case generateNewCsrfString env of
                                   Inl e \<Rightarrow> Some (Some (newJwtError (AsError e) 500), c, w1)
                                 | Inr newCsrfString \<Rightarrow>
                                     (let c1 = c\<lparr>CsrfString := newCsrfString\<rparr> in
                                      case credentialsOptions.UpdateTokenClaims (credentials.options c)
                                             (heap w1) refreshTokenClaims of
                                        (claims, h0) \<Rightarrow>
                                          do {
                                            h1 \<leftarrow> setClaim h0 claims ''csrf'' (VString newCsrfString);
                                            h2 \<leftarrow> setClaim h1 claims ''exp''
                                                   (VInt64 (Unix (Add (timeNow1 env)
                                                      (credentialsOptions.AuthTokenValidTime (credentials.options c)))));
                                            let c2 = c1\<lparr>AuthToken := Some (newTokenWithClaims c1 claims
                                                      (credentialsOptions.AuthTokenValidTime (credentials.options c)))\<rparr>;
                                            h3 \<leftarrow> setClaim h2 claims ''csrf'' (VString newCsrfString);
                                            h4 \<leftarrow> setClaim h3 claims ''exp''
                                                   (VInt64 (Unix (Add (timeNow2 env)
                                                      (credentialsOptions.RefreshTokenValidTime (credentials.options c)))));
                                            let c3 = c2\<lparr>RefreshToken := Some (newTokenWithClaims c2 claims
                                                      (credentialsOptions.RefreshTokenValidTime (credentials.options c)))\<rparr>;
                                            Some (None, c3,
                                                  \<lparr>heap = h4,
                                                   calls = calls w1 @ [UpdateTokenClaimsCall refreshTokenClaims]\<rparr>)
                                          }))
                              else
                                Some (Some (newJwtError
                                        (ErrorsNew ''refresh token is invalid. Cannot refresh auth token'') 401), c, w1)
                            else
                              Some (Some (newJwtError
                                      (ErrorsNew ''refresh token has been revoked. Cannot update auth token'') 401), c, w1)))
                    else
                      Some (Some (newJwtError (ErrorsNew ''CSRF token doesn't match value in refresh token'') 401), c, w))))"

text \<open>
  \<^verbatim>\<open>validateAndUpdateCredentials\<close>. The variable \<^verbatim>\<open>err\<close> tested by \<^verbatim>\<open>errors.Is\<close> and by
  \<^verbatim>\<open>err.Type == 401\<close> is the result of the CSRF check; the token's own \<^verbatim>\<open>ParseErr\<close> is not
  read. \<^verbatim>\<open>c.AuthToken.Token.Valid\<close> is read only after the CSRF check has returned nil, so
  both pointers are non-nil there.
\<close>

definition authTokenValid :: "credentials \<Rightarrow> bool" where
  "authTokenValid c =
     (case AuthToken c of
        None \<Rightarrow> False
      | Some authTok \<Rightarrow> (case Token authTok of None \<Rightarrow> False | Some tk \<Rightarrow> Valid tk))"

definition validateAndUpdateCredentials :: "environment \<Rightarrow> world \<Rightarrow> credentials \<Rightarrow> result" where
  "validateAndUpdateCredentials env w c =
     do {
       e \<leftarrow> validateCsrfStringAgainstCredentials (heap w) c;
       if e = None \<and> authTokenValid c
       then Some (None, c, w)
       else if errors_Is_ErrTokenExpired e \<or> (case e of None \<Rightarrow> False | Some j \<Rightarrow> Type j = 401)
       then
         if VerifyOnlyServer (credentials.options c)
         then Some (Some (newJwtError
                 (ErrorsNew ''Auth token is expired and server is not authorized to issue new tokens'') 401), c, w)
         else updateAuthTokenFromRefreshToken env w c
       else Some (Some (newJwtError
               (ErrorsNew ''Auth token is not valid, and not because it has expired'') 401), c, w)
     }"

section \<open>Reading a token's claims\<close>

text \<open>
  What the code reaches of a token's claims: the pointer obtained by the type assertion
  \<^verbatim>\<open>t.Token.Claims.(*jwtGo.MapClaims)\<close>, the table behind it, and a string claim read from
  it with \<^verbatim>\<open>GetClaimString\<close>.
\<close>

definition tokenClaimsRef :: "jwtToken option \<Rightarrow> MapClaims option" where
  "tokenClaimsRef t =
     (case t of
        None \<Rightarrow> None
      | Some jt \<Rightarrow> (case Token jt of None \<Rightarrow> None | Some tk \<Rightarrow> assertPtrMapClaims (Claims tk)))"

definition tokenClaimSet :: "heap \<Rightarrow> jwtToken option \<Rightarrow> claimSet option" where
  "tokenClaimSet h t =
     (case tokenClaimsRef t of
        None \<Rightarrow> None
      | Some m \<Rightarrow> (case m of None \<Rightarrow> None | Some a \<Rightarrow> Some (h a)))"

definition tokenClaim :: "heap \<Rightarrow> jwtToken option \<Rightarrow> string \<Rightarrow> claimValue option" where
  "tokenClaim h t k = (case tokenClaimSet h t of None \<Rightarrow> None | Some m \<Rightarrow> m k)"

definition tokenClaimString :: "heap \<Rightarrow> jwtToken option \<Rightarrow> string \<Rightarrow> string option" where
  "tokenClaimString h t k =
     (case tokenClaimsRef t of
        None \<Rightarrow> None
      | Some m \<Rightarrow> (case GetClaimString h m k of Inl e \<Rightarrow> None | Inr s \<Rightarrow> Some s))"

text \<open>The table behind a claims value of either map representation (empty for nil).\<close>

definition claimsTable :: "heap \<Rightarrow> Claims \<Rightarrow> claimSet" where
  "claimsTable h cl =
     (case cl of
        PtrMapClaims m \<Rightarrow> (case m of None \<Rightarrow> Map.empty | Some a \<Rightarrow> h a)
      | ValMapClaims m \<Rightarrow> (case m of None \<Rightarrow> Map.empty | Some a \<Rightarrow> h a)
      | NilClaims \<Rightarrow> Map.empty)"

section \<open>Concrete sessions\<close>

text \<open>
  A service with a one second auth lifetime and a seventy-two hour refresh lifetime, as in
  the repository's tests; an updater that hands back the refresh token's own map; a store
  with the claims of an auth token (address 0), of a refresh token (address 1), of an
  auth token stamped with another csrf (address 2) and of a refresh token without an id
  (address 3).
\<close>

definition allValid :: "string \<Rightarrow> bool" where
  "allValid i = True"

definition allRevoked :: "string \<Rightarrow> bool" where
  "allRevoked i = False"

definition sameClaims :: "heap \<Rightarrow> MapClaims \<Rightarrow> MapClaims \<times> heap" where
  "sameClaims h m = (m, h)"

definition exOptions :: "bool \<Rightarrow> (string \<Rightarrow> bool) \<Rightarrow> credentialsOptions" where
  "exOptions verifyOnly check =
     \<lparr>credentialsOptions.AuthTokenValidTime = 1000000000,
      credentialsOptions.RefreshTokenValidTime = 259200000000000,
      credentialsOptions.CheckTokenId = check,
      credentialsOptions.SigningMethodString = ''HS256'',
      credentialsOptions.VerifyOnlyServer = verifyOnly,
      credentialsOptions.UpdateTokenClaims = sameClaims,
      credentialsOptions.Debug = False\<rparr>"

definition exAuth :: Auth where
  "exAuth =
     \<lparr>Auth.options =
        \<lparr>Options.AuthTokenValidTime = 1000000000,
         Options.RefreshTokenValidTime = 259200000000000,
         Options.SigningMethodString = ''HS256'',
         Options.VerifyOnlyServer = False,
         Options.UpdateTokenClaims = sameClaims,
         Options.Debug = False\<rparr>,
      checkTokenId = allValid,
      verifyKey = ''k''\<rparr>"

definition exHeap :: heap where
  "exHeap =
     (\<lambda>a. Map.empty)
       (0 := [''csrf'' \<mapsto> VString ''s1'', ''id'' \<mapsto> VString ''u1'', ''Role'' \<mapsto> VString ''user'',
              ''exp'' \<mapsto> VInt64 100],
        1 := [''csrf'' \<mapsto> VString ''s1'', ''id'' \<mapsto> VString ''u1'', ''Role'' \<mapsto> VString ''user'',
              ''exp'' \<mapsto> VInt64 259299],
        2 := [''csrf'' \<mapsto> VString ''s0'', ''id'' \<mapsto> VString ''u1'', ''Role'' \<mapsto> VString ''user'',
              ''exp'' \<mapsto> VInt64 100],
        3 := [''csrf'' \<mapsto> VString ''s1'', ''Role'' \<mapsto> VString ''user'', ''exp'' \<mapsto> VInt64 259299])"

definition exWorld :: world where
  "exWorld = \<lparr>heap = exHeap, calls = []\<rparr>"

definition exEnv :: environment where
  "exEnv = \<lparr>GenerateRandomString = Inr ''s2'', timeNow1 = 101000000000, timeNow2 = 101000000007\<rparr>"

definition exNoRandom :: environment where
  "exNoRandom = \<lparr>GenerateRandomString = Inl (ExternalError ''no entropy''), timeNow1 = 101000000000,
                 timeNow2 = 101000000007\<rparr>"

text \<open>A parsed token over the claims \<open>cl\<close>: valid, or invalid with the parser's error.\<close>

definition exToken :: "Claims \<Rightarrow> error option \<Rightarrow> Duration \<Rightarrow> jwtToken" where
  "exToken cl perr validTime =
     \<lparr>Token = Some \<lparr>Method = Some ''HS256'', Claims = cl, Valid = (perr = None)\<rparr>,
      ParseErr = perr,
      options = \<lparr>ValidTime = validTime, SigningMethodString = ''HS256'', Debug = False\<rparr>\<rparr>"

definition exCredentials ::
  "string \<Rightarrow> Claims \<Rightarrow> error option \<Rightarrow> Claims \<Rightarrow> error option \<Rightarrow> credentialsOptions \<Rightarrow> credentials" where
  "exCredentials csrf authClaims authErr refreshClaims refreshErr opts =
     \<lparr>CsrfString = csrf,
      AuthToken = Some (exToken authClaims authErr 1000000000),
      RefreshToken = Some (exToken refreshClaims refreshErr 259200000000000),
      options = opts\<rparr>"

text \<open>The credentials of a request handler before anything is built into them.\<close>

definition exFresh :: credentials where
  "exFresh = \<lparr>CsrfString = [], AuthToken = None, RefreshToken = None, options = exOptions False allRevoked\<rparr>"

text \<open>
  A parser that finds the signature of a three-part token wrong: it hands back the token
  with the claims it decoded (address 0) together with its error. A parser that finds no
  token in the string at all.
\<close>

definition exSignatureFails :: parser where
  "exSignatureFails s kf h =
     (Some \<lparr>Method = Some ''HS256'', Claims = ValMapClaims (Some 0), Valid = False\<rparr>,
      Some (ExternalError ''token signature is invalid''), h)"

definition exMalformed :: parser where
  "exMalformed s kf h = (None, Some (ExternalError ''token contains an invalid number of segments''), h)"

text \<open>
  A parser for two wire strings: an auth token that has expired (claims at address 0) and
  a refresh token in order (claims at address 1); every other string holds no token. The
  key function is asked for the key first. The flag says whether the parsed claims come as
  a pointer to the map or as the map itself.
\<close>

definition exParser :: "bool \<Rightarrow> parser" where
  "exParser byPointer s kf h =
     (let held = (\<lambda>m. if byPointer then PtrMapClaims m else ValMapClaims m);
          parsed = (\<lambda>cl perr.
            (case kf \<lparr>Method = Some ''HS256'', Claims = cl, Valid = False\<rparr> of
               Inl e \<Rightarrow> (Some \<lparr>Method = Some ''HS256'', Claims = cl, Valid = False\<rparr>, Some e, h)
             | Inr k \<Rightarrow> (Some \<lparr>Method = Some ''HS256'', Claims = cl, Valid = (perr = None)\<rparr>, perr, h)))
      in if s = ''auth.expired'' then parsed (held (Some 0)) (Some ErrTokenExpired)
         else if s = ''refresh.ok'' then parsed (held (Some 1)) None
         else (None, Some (ExternalError ''token contains an invalid number of segments''), h))"

text \<open>
  A parser that leaves a token the way the library does when it is handed
  \<^verbatim>\<open>jwtGo.MapClaims{}\<close>, as \<^verbatim>\<open>buildTokenWithClaimsFromString\<close> hands it: the claims come back as
  the map itself, not as a pointer to it. It knows an auth token in order (claims at
  address 0) and a refresh token in order (claims at address 1), and asks the key function
  for the key first.
\<close>

definition exLibraryParser :: parser where
  "exLibraryParser s kf h =
     (let parsed = (\<lambda>cl.
            (case kf \<lparr>Method = Some ''HS256'', Claims = cl, Valid = False\<rparr> of
               Inl e \<Rightarrow> (Some \<lparr>Method = Some ''HS256'', Claims = cl, Valid = False\<rparr>, Some e, h)
             | Inr k \<Rightarrow> (Some \<lparr>Method = Some ''HS256'', Claims = cl, Valid = True\<rparr>, None, h)))
      in if s = ''auth.ok'' then parsed (ValMapClaims (Some 0))
         else if s = ''refresh.ok'' then parsed (ValMapClaims (Some 1))
         else (None, Some (ExternalError ''token contains an invalid number of segments''), h))"

section \<open>Facts shared by the proofs\<close>

lemma updateAuthTokenFromRefreshToken_error_frame:
  "updateAuthTokenFromRefreshToken env w c = Some (Some e, c', w') \<Longrightarrow> c' = c \<and> heap w' = heap w"
  by (auto simp: updateAuthTokenFromRefreshToken_def Let_def
      split: option.splits sum.splits if_splits prod.splits Option.bind_splits)

lemma csrf_check_passes:
  "tokenClaimString h (AuthToken c) ''csrf'' = Some (CsrfString c) \<Longrightarrow>
   validateCsrfStringAgainstCredentials h c = Some None"
  by (auto simp: tokenClaimString_def tokenClaimsRef_def validateCsrfStringAgainstCredentials_def
      split: option.splits sum.splits)

text \<open>
  Where a valid token can come from. A token made by \<^verbatim>\<open>newTokenWithClaims\<close> is not valid, and
  neither is the empty token that \<^verbatim>\<open>buildTokenWithClaimsFromString\<close> puts in the place of
  nil: a valid token is the parser's own. An auth token whose claims are not a pointer to
  a map fails the type assertion of the csrf check, which returns its 500 error, and the
  call ends with the 401 error for a token that is invalid for another reason than expiry.
\<close>

lemma non_pointer_auth_is_rejected:
  assumes "AuthToken c = Some authTok" and "Token authTok = Some tk"
    and "assertPtrMapClaims (Claims tk) = None"
  shows "validateAndUpdateCredentials env w c =
           Some (Some (newJwtError (ErrorsNew
             ''Auth token is not valid, and not because it has expired'') 401), c, w)"
  using assms
  by (simp add: validateAndUpdateCredentials_def validateCsrfStringAgainstCredentials_def
      errors_Is_ErrTokenExpired_def newJwtError_def)

lemma newTokenWithClaims_not_valid:
  "Token (newTokenWithClaims c m validTime) = Some tk \<Longrightarrow> Valid tk = False"
  by (auto simp: newTokenWithClaims_def NewWithClaims_def)

lemma built_valid_is_parsed:
  assumes "buildTokenWithClaimsFromString ParseWithClaims c h s key validTime = Some (jt, h')"
    and "Token jt = Some tk" and "Valid tk"
  shows "\<exists>perr. ParseWithClaims s (keyFunc c key) h = (Some tk, perr, h')"
  using assms
  by (auto simp: buildTokenWithClaimsFromString_def split: prod.splits option.splits)

lemmas ex_defs = exCredentials_def exToken_def exOptions_def exWorld_def exHeap_def exEnv_def
  exNoRandom_def exAuth_def exFresh_def allValid_def allRevoked_def sameClaims_def exParser_def

lemmas code_defs = validateAndUpdateCredentials_def validateCsrfStringAgainstCredentials_def
  updateAuthTokenFromRefreshToken_def authTokenValid_def assertPtrMapClaims_def GetClaimString_def
  errors_Is_ErrTokenExpired_def newJwtError_def generateNewCsrfString_def setClaim_def
  newTokenWithClaims_def NewWithClaims_def GetSigningMethod_def Add_def Unix_def
  buildCredentialsFromClaims_def optionsFromAuth_def

lemmas read_defs = tokenClaimString_def tokenClaim_def tokenClaimSet_def tokenClaimsRef_def
  claimsTable_def

section \<open>A valid auth token\<close>

text \<open>
  C5. The claim is that a valid auth token whose csrf claim equals the presented csrf secret
  is accepted at once, with nothing changed. A token is valid only as the parser leaves
  it, and the parser is handed \<^verbatim>\<open>jwtGo.MapClaims{}\<close>, so it leaves the claims as the map
  itself. What the code does with such a token, although its csrf claim is the presented
  one: the assertion \<^verbatim>\<open>Claims.(*jwtGo.MapClaims)\<close> fails, and the call returns the 401 error
  for a token that is invalid for another reason than expiry. The concrete session builds
  the credentials from wire strings.
\<close>

theorem valid_token_with_matching_csrf_is_rejected:
  assumes "AuthToken c = Some authTok" and "Token authTok = Some tk"
    and "Valid tk" and "Claims tk = ValMapClaims m"
    and "claimsTable (heap w) (Claims tk) ''csrf'' = Some (VString (CsrfString c))"
  shows "validateAndUpdateCredentials env w c =
           Some (Some (newJwtError (ErrorsNew
             ''Auth token is not valid, and not because it has expired'') 401), c, w)"
proof -
  have "assertPtrMapClaims (Claims tk) = None"
    using assms(4) by (simp add: assertPtrMapClaims_def)
  with assms(1,2) show ?thesis
    by (rule non_pointer_auth_is_rejected)
qed

theorem valid_token_with_matching_csrf_is_rejected_witness:
  "buildCredentialsFromStrings exAuth exLibraryParser exWorld exFresh ''s1'' ''auth.ok'' ''refresh.ok'' =
     Some (None,
           exCredentials ''s1'' (ValMapClaims (Some 0)) None (ValMapClaims (Some 1)) None
             (exOptions False allValid),
           exWorld) \<and>
   authTokenValid (exCredentials ''s1'' (ValMapClaims (Some 0)) None (ValMapClaims (Some 1)) None
             (exOptions False allValid)) \<and>
   claimsTable (heap exWorld) (ValMapClaims (Some 0)) ''csrf'' = Some (VString ''s1'') \<and>
   validateAndUpdateCredentials exEnv exWorld
     (exCredentials ''s1'' (ValMapClaims (Some 0)) None (ValMapClaims (Some 1)) None
        (exOptions False allValid)) =
     Some (Some (JwtError (ErrorsNew ''Auth token is not valid, and not because it has expired'') 401),
           exCredentials ''s1'' (ValMapClaims (Some 0)) None (ValMapClaims (Some 1)) None
             (exOptions False allValid),
           exWorld)"
proof -
  let ?c = "exCredentials ''s1'' (ValMapClaims (Some 0)) None (ValMapClaims (Some 1)) None
              (exOptions False allValid)"
  let ?tk = "\<lparr>Method = Some ''HS256'', Claims = ValMapClaims (Some 0), Valid = True\<rparr>"
  have built: "buildCredentialsFromStrings exAuth exLibraryParser exWorld exFresh ''s1''
                 ''auth.ok'' ''refresh.ok'' = Some (None, ?c, exWorld)"
    by (simp add: buildCredentialsFromStrings_def buildTokenWithClaimsFromString_def keyFunc_def
        GetSigningMethod_def optionsFromAuth_def exLibraryParser_def ex_defs)
  have h1: "AuthToken ?c = Some (exToken (ValMapClaims (Some 0)) None 1000000000)"
    by (simp add: ex_defs)
  have h2: "Token (exToken (ValMapClaims (Some 0)) None 1000000000) = Some ?tk"
    by (simp add: ex_defs)
  have h3: "Valid ?tk" by simp
  have h4: "Claims ?tk = ValMapClaims (Some 0)" by simp
  have h5: "claimsTable (heap exWorld) (Claims ?tk) ''csrf'' = Some (VString (CsrfString ?c))"
    by (simp add: ex_defs claimsTable_def)
  have h6: "authTokenValid ?c"
    by (simp add: ex_defs authTokenValid_def)
  have h7: "claimsTable (heap exWorld) (ValMapClaims (Some 0)) ''csrf'' = Some (VString ''s1'')"
    by (simp add: ex_defs claimsTable_def)
  have run: "validateAndUpdateCredentials exEnv exWorld ?c =
     Some (Some (JwtError (ErrorsNew ''Auth token is not valid, and not because it has expired'') 401),
           ?c, exWorld)"
    using valid_token_with_matching_csrf_is_rejected [OF h1 h2 h3 h4 h5, of exEnv]
    by (simp only: newJwtError_def)
  from built h6 h7 run show ?thesis
    by (intro conjI)
qed



section \<open>Errors change nothing\<close>

text \<open>
  C4. Whenever \<^verbatim>\<open>validateAndUpdateCredentials\<close> returns an error (of any status code), the
  credentials are the ones it was called with, so the csrf secret, the auth token and the
  refresh token are unchanged, and so is the store that holds the tokens' claims.
\<close>

theorem errors_leave_credentials_untouched:
  "validateAndUpdateCredentials env w c = Some (Some e, c', w') \<Longrightarrow>
   CsrfString c' = CsrfString c \<and> AuthToken c' = AuthToken c \<and> RefreshToken c' = RefreshToken c \<and>
   c' = c \<and> heap w' = heap w"
  by (auto simp: validateAndUpdateCredentials_def dest: updateAuthTokenFromRefreshToken_error_frame
      split: option.splits if_splits Option.bind_splits)

theorem errors_leave_credentials_untouched_witness:
  "validateAndUpdateCredentials exNoRandom exWorld
     (exCredentials ''s1'' (PtrMapClaims (Some 2)) None (PtrMapClaims (Some 1)) None
        (exOptions False allValid)) =
   Some (Some (JwtError (AsError (JwtError (ExternalError ''no entropy'') 500)) 500),
         exCredentials ''s1'' (PtrMapClaims (Some 2)) None (PtrMapClaims (Some 1)) None
           (exOptions False allValid),
         exWorld\<lparr>calls := [CheckTokenIdCall ''u1'']\<rparr>) \<and>
   heap (exWorld\<lparr>calls := [CheckTokenIdCall ''u1'']\<rparr>) = heap exWorld"
proof -
  let ?c = "exCredentials ''s1'' (PtrMapClaims (Some 2)) None (PtrMapClaims (Some 1)) None
        (exOptions False allValid)"
  have run: "validateAndUpdateCredentials exNoRandom exWorld ?c =
    Some (Some (JwtError (AsError (JwtError (ExternalError ''no entropy'') 500)) 500), ?c,
          exWorld\<lparr>calls := [CheckTokenIdCall ''u1'']\<rparr>)"
    by (simp add: ex_defs code_defs)
  from errors_leave_credentials_untouched [OF run] run show ?thesis
    by simp
qed

section \<open>A verify-only service\<close>

text \<open>
  C9. On a verify-only service, when the auth token is not valid (expired, say), whatever
  the refresh token is, \<^verbatim>\<open>validateAndUpdateCredentials\<close> returns one of its two 401 errors
  and leaves the credentials, the store and the log of collaborator calls as they were: no
  refresh is attempted, \<^verbatim>\<open>CheckTokenId\<close> and \<^verbatim>\<open>UpdateTokenClaims\<close> are not called and no token
  is made.
\<close>

theorem verify_only_never_refreshes:
  assumes "VerifyOnlyServer (options c)"
    and "AuthToken c = Some authTok" and "Token authTok = Some tk" and "\<not> Valid tk"
  shows "validateAndUpdateCredentials env w c =
           Some (Some (newJwtError (ErrorsNew
             ''Auth token is expired and server is not authorized to issue new tokens'') 401), c, w) \<or>
         validateAndUpdateCredentials env w c =
           Some (Some (newJwtError (ErrorsNew
             ''Auth token is not valid, and not because it has expired'') 401), c, w)"
proof -
  have nv: "\<not> authTokenValid c"
    using assms(2-4) by (simp add: authTokenValid_def)
  obtain e where e: "validateCsrfStringAgainstCredentials (heap w) c = Some e"
    using assms(2,3) by (simp add: validateCsrfStringAgainstCredentials_def)
  show ?thesis
    using e nv assms(1) by (simp add: validateAndUpdateCredentials_def)
qed

theorem verify_only_never_refreshes_witness:
  "VerifyOnlyServer (exOptions True allValid) \<and>
   \<not> authTokenValid (exCredentials ''s1'' (PtrMapClaims (Some 0)) (Some ErrTokenExpired)
        (PtrMapClaims (Some 1)) None (exOptions True allValid)) \<and>
   validateAndUpdateCredentials exEnv exWorld
      (exCredentials ''s1'' (PtrMapClaims (Some 0)) (Some ErrTokenExpired)
        (PtrMapClaims (Some 1)) None (exOptions True allValid)) =
    Some (Some (newJwtError (ErrorsNew
            ''Auth token is not valid, and not because it has expired'') 401),
          exCredentials ''s1'' (PtrMapClaims (Some 0)) (Some ErrTokenExpired)
            (PtrMapClaims (Some 1)) None (exOptions True allValid), exWorld)"
proof -
  let ?c = "exCredentials ''s1'' (PtrMapClaims (Some 0)) (Some ErrTokenExpired)
        (PtrMapClaims (Some 1)) None (exOptions True allValid)"
  let ?tk = "\<lparr>Method = Some ''HS256'', Claims = PtrMapClaims (Some 0), Valid = False\<rparr>"
  have h1: "VerifyOnlyServer (options ?c)" by (simp add: ex_defs)
  have h2: "AuthToken ?c = Some (exToken (PtrMapClaims (Some 0)) (Some ErrTokenExpired) 1000000000)"
    by (simp add: ex_defs)
  have h3: "Token (exToken (PtrMapClaims (Some 0)) (Some ErrTokenExpired) 1000000000) = Some ?tk"
    by (simp add: ex_defs)
  have h4: "\<not> Valid ?tk" by simp
  have h5: "\<not> authTokenValid ?c" by (simp add: ex_defs authTokenValid_def)
  have h6: "VerifyOnlyServer (exOptions True allValid)" by (simp add: ex_defs)
  have h7: "validateCsrfStringAgainstCredentials (heap exWorld) ?c = Some None"
    by (simp add: ex_defs code_defs)
  have h8: "validateAndUpdateCredentials exEnv exWorld ?c \<noteq>
           Some (Some (newJwtError (ErrorsNew
             ''Auth token is expired and server is not authorized to issue new tokens'') 401), ?c, exWorld)"
    using h7 h5 by (simp add: validateAndUpdateCredentials_def errors_Is_ErrTokenExpired_def newJwtError_def)
  from verify_only_never_refreshes [OF h1 h2 h3 h4, of exEnv exWorld] h5 h6 h8 show ?thesis
    by blast
qed

section \<open>Issuance\<close>

text \<open>
  C8. When \<^verbatim>\<open>buildCredentialsFromClaims\<close> succeeds, the csrf claim read from the new auth
  token and the csrf claim read from the new refresh token both equal the csrf secret left
  in the credentials.
\<close>

theorem issued_tokens_share_csrf:
  assumes "buildCredentialsFromClaims a env w c claims = Some (None, c', w')"
  shows "tokenClaimString (heap w') (AuthToken c') ''csrf'' = Some (CsrfString c') \<and>
         tokenClaimString (heap w') (RefreshToken c') ''csrf'' = Some (CsrfString c')"
  using assms
  by (auto simp: buildCredentialsFromClaims_def Let_def setClaim_def read_defs
      newTokenWithClaims_def NewWithClaims_def assertPtrMapClaims_def GetClaimString_def
      split: sum.splits option.splits Option.bind_splits)

theorem issued_tokens_share_csrf_witness:
  "(case buildCredentialsFromClaims exAuth exEnv exWorld exFresh (Some (Some 0)) of
      None \<Rightarrow> False
    | Some (e, c', w') \<Rightarrow>
        e = None \<and> CsrfString c' = ''s2'' \<and>
        tokenClaimString (heap w') (AuthToken c') ''csrf'' = Some ''s2'' \<and>
        tokenClaimString (heap w') (RefreshToken c') ''csrf'' = Some ''s2'')"
proof -
  obtain c' w' where run: "buildCredentialsFromClaims exAuth exEnv exWorld exFresh (Some (Some 0)) = Some (None, c', w')"
    and csrf: "CsrfString c' = ''s2''"
    by (simp add: ex_defs code_defs)
  from issued_tokens_share_csrf [OF run] run csrf show ?thesis
    by simp
qed

text \<open>
  C10. After \<^verbatim>\<open>buildCredentialsFromClaims\<close> succeeds, and after
  \<^verbatim>\<open>updateAuthTokenFromRefreshToken\<close> succeeds, the auth token and the refresh token point to
  one and the same claims map, so their claim-sets are equal key for key.
\<close>

theorem tokens_share_one_claims_map:
  assumes "buildCredentialsFromClaims a env w c claims = Some (None, c', w') \<or>
           updateAuthTokenFromRefreshToken env w c = Some (None, c', w')"
  shows "(\<exists>m. tokenClaimsRef (AuthToken c') = Some (Some m) \<and>
              tokenClaimsRef (RefreshToken c') = Some (Some m)) \<and>
         tokenClaimSet (heap w') (AuthToken c') = tokenClaimSet (heap w') (RefreshToken c') \<and>
         tokenClaimSet (heap w') (AuthToken c') \<noteq> None \<and>
         (\<forall>k. tokenClaim (heap w') (AuthToken c') k = tokenClaim (heap w') (RefreshToken c') k)"
  using assms
proof
  assume "buildCredentialsFromClaims a env w c claims = Some (None, c', w')"
  then show ?thesis
    by (auto simp: buildCredentialsFromClaims_def Let_def setClaim_def read_defs
      newTokenWithClaims_def NewWithClaims_def assertPtrMapClaims_def
      split: sum.splits option.splits Option.bind_splits)
next
  assume "updateAuthTokenFromRefreshToken env w c = Some (None, c', w')"
  then show ?thesis
    by (auto simp: updateAuthTokenFromRefreshToken_def Let_def setClaim_def read_defs
      newTokenWithClaims_def NewWithClaims_def assertPtrMapClaims_def
      split: sum.splits option.splits if_splits prod.splits Option.bind_splits)
qed

theorem tokens_share_one_claims_map_witness:
  "(case buildCredentialsFromClaims exAuth exEnv exWorld exFresh (Some (Some 0)) of
      None \<Rightarrow> False
    | Some (e, c', w') \<Rightarrow>
        e = None \<and> tokenClaimsRef (AuthToken c') = Some (Some 0) \<and>
        tokenClaimsRef (RefreshToken c') = Some (Some 0) \<and>
        tokenClaimSet (heap w') (AuthToken c') = tokenClaimSet (heap w') (RefreshToken c') \<and>
        tokenClaim (heap w') (AuthToken c') ''exp'' = tokenClaim (heap w') (RefreshToken c') ''exp'') \<and>
   (case updateAuthTokenFromRefreshToken exEnv exWorld
           (exCredentials ''s1'' (PtrMapClaims (Some 2)) None (PtrMapClaims (Some 1)) None
              (exOptions False allValid)) of
      None \<Rightarrow> False
    | Some (e, c', w') \<Rightarrow>
        e = None \<and> tokenClaimsRef (AuthToken c') = Some (Some 1) \<and>
        tokenClaimsRef (RefreshToken c') = Some (Some 1) \<and>
        tokenClaimSet (heap w') (AuthToken c') = tokenClaimSet (heap w') (RefreshToken c') \<and>
        tokenClaim (heap w') (AuthToken c') ''exp'' = tokenClaim (heap w') (RefreshToken c') ''exp'')"
proof -
  obtain c1 w1 where run1:
      "buildCredentialsFromClaims exAuth exEnv exWorld exFresh (Some (Some 0)) = Some (None, c1, w1)"
    and ref1: "tokenClaimsRef (AuthToken c1) = Some (Some 0)"
    by (simp add: ex_defs code_defs read_defs)
  let ?c = "exCredentials ''s1'' (PtrMapClaims (Some 2)) None (PtrMapClaims (Some 1)) None
              (exOptions False allValid)"
  obtain c2 w2 where run2: "updateAuthTokenFromRefreshToken exEnv exWorld ?c = Some (None, c2, w2)"
    and ref2: "tokenClaimsRef (AuthToken c2) = Some (Some 1)"
    by (simp add: ex_defs code_defs read_defs)
  have a: "buildCredentialsFromClaims exAuth exEnv exWorld exFresh (Some (Some 0)) = Some (None, c1, w1) \<or>
           updateAuthTokenFromRefreshToken exEnv exWorld exFresh = Some (None, c1, w1)"
    using run1 by simp
  have b: "buildCredentialsFromClaims exAuth exEnv exWorld ?c None = Some (None, c2, w2) \<or>
           updateAuthTokenFromRefreshToken exEnv exWorld ?c = Some (None, c2, w2)"
    using run2 by simp
  from tokens_share_one_claims_map [OF a] tokens_share_one_claims_map [OF b] run1 run2 ref1 ref2
  show ?thesis by auto
qed

text \<open>
  C3. The claim is that the new auth token carries \<open>exp = now + authValidTime\<close>, strictly
  earlier than the refresh token's \<open>exp = now + refreshValidTime\<close>. What the code leaves
  behind, at issuance and on refresh alike: both tokens share one map, the second write of
  \<open>exp\<close> replaces the first, and the auth token reads the refresh token's expiry, the
  second clock reading plus the refresh lifetime. With a one second auth lifetime and a
  seventy-two hour refresh lifetime that is 259301 for both tokens, where the auth token's
  own expiry would be 102.
\<close>

theorem auth_expiry_is_overwritten:
  "(buildCredentialsFromClaims a env w c claims = Some (None, c', w') \<longrightarrow>
      tokenClaim (heap w') (AuthToken c') ''exp'' =
        Some (VInt64 (Unix (Add (timeNow2 env) (Options.RefreshTokenValidTime (Auth.options a))))) \<and>
      tokenClaim (heap w') (RefreshToken c') ''exp'' =
        Some (VInt64 (Unix (Add (timeNow2 env) (Options.RefreshTokenValidTime (Auth.options a)))))) \<and>
   (updateAuthTokenFromRefreshToken env w c = Some (None, c', w') \<longrightarrow>
      tokenClaim (heap w') (AuthToken c') ''exp'' =
        Some (VInt64 (Unix (Add (timeNow2 env) (RefreshTokenValidTime (options c))))) \<and>
      tokenClaim (heap w') (RefreshToken c') ''exp'' =
        Some (VInt64 (Unix (Add (timeNow2 env) (RefreshTokenValidTime (options c))))))"
proof (intro conjI impI)
  assume run: "buildCredentialsFromClaims a env w c claims = Some (None, c', w')"
  then show "tokenClaim (heap w') (AuthToken c') ''exp'' =
        Some (VInt64 (Unix (Add (timeNow2 env) (Options.RefreshTokenValidTime (Auth.options a)))))"
    by (auto simp: buildCredentialsFromClaims_def Let_def setClaim_def read_defs
      newTokenWithClaims_def NewWithClaims_def assertPtrMapClaims_def
      split: sum.splits option.splits Option.bind_splits)
  from run show "tokenClaim (heap w') (RefreshToken c') ''exp'' =
        Some (VInt64 (Unix (Add (timeNow2 env) (Options.RefreshTokenValidTime (Auth.options a)))))"
    by (auto simp: buildCredentialsFromClaims_def Let_def setClaim_def read_defs
      newTokenWithClaims_def NewWithClaims_def assertPtrMapClaims_def
      split: sum.splits option.splits Option.bind_splits)
next
  assume run: "updateAuthTokenFromRefreshToken env w c = Some (None, c', w')"
  then show "tokenClaim (heap w') (AuthToken c') ''exp'' =
        Some (VInt64 (Unix (Add (timeNow2 env) (RefreshTokenValidTime (options c)))))"
    by (auto simp: updateAuthTokenFromRefreshToken_def Let_def setClaim_def read_defs
      newTokenWithClaims_def NewWithClaims_def assertPtrMapClaims_def
      split: sum.splits option.splits if_splits prod.splits Option.bind_splits)
  from run show "tokenClaim (heap w') (RefreshToken c') ''exp'' =
        Some (VInt64 (Unix (Add (timeNow2 env) (RefreshTokenValidTime (options c)))))"
    by (auto simp: updateAuthTokenFromRefreshToken_def Let_def setClaim_def read_defs
      newTokenWithClaims_def NewWithClaims_def assertPtrMapClaims_def
      split: sum.splits option.splits if_splits prod.splits Option.bind_splits)
qed

theorem auth_expiry_is_overwritten_witness:
  "(case buildCredentialsFromClaims exAuth exEnv exWorld exFresh (Some (Some 0)) of
      None \<Rightarrow> False
    | Some (e, c', w') \<Rightarrow>
        e = None \<and>
        tokenClaim (heap w') (AuthToken c') ''exp'' = Some (VInt64 259301) \<and>
        tokenClaim (heap w') (RefreshToken c') ''exp'' = Some (VInt64 259301)) \<and>
   (case updateAuthTokenFromRefreshToken exEnv exWorld
           (exCredentials ''s1'' (PtrMapClaims (Some 2)) None (PtrMapClaims (Some 1)) None
              (exOptions False allValid)) of
      None \<Rightarrow> False
    | Some (e, c', w') \<Rightarrow>
        e = None \<and>
        tokenClaim (heap w') (AuthToken c') ''exp'' = Some (VInt64 259301) \<and>
        tokenClaim (heap w') (RefreshToken c') ''exp'' = Some (VInt64 259301)) \<and>
   Unix (Add (timeNow1 exEnv) (Options.AuthTokenValidTime (Auth.options exAuth))) = 102 \<and>
   Unix (Add (timeNow2 exEnv) (Options.RefreshTokenValidTime (Auth.options exAuth))) = 259301 \<and>
   Options.AuthTokenValidTime (Auth.options exAuth) < Options.RefreshTokenValidTime (Auth.options exAuth)"
proof -
  let ?c = "exCredentials ''s1'' (PtrMapClaims (Some 2)) None (PtrMapClaims (Some 1)) None
              (exOptions False allValid)"
  obtain c1 w1 where run1:
      "buildCredentialsFromClaims exAuth exEnv exWorld exFresh (Some (Some 0)) = Some (None, c1, w1)"
    by (simp add: ex_defs code_defs)
  obtain c2 w2 where run2: "updateAuthTokenFromRefreshToken exEnv exWorld ?c = Some (None, c2, w2)"
    by (simp add: ex_defs code_defs)
  have t1: "Unix (Add (timeNow1 exEnv) (Options.AuthTokenValidTime (Auth.options exAuth))) = 102"
    by (simp add: ex_defs Unix_def Add_def)
  have t2: "Unix (Add (timeNow2 exEnv) (Options.RefreshTokenValidTime (Auth.options exAuth))) = 259301"
    by (simp add: ex_defs Unix_def Add_def)
  have t3: "Unix (Add (timeNow2 exEnv) (RefreshTokenValidTime (options ?c))) = 259301"
    by (simp add: ex_defs Unix_def Add_def)
  have t4: "Options.AuthTokenValidTime (Auth.options exAuth) < Options.RefreshTokenValidTime (Auth.options exAuth)"
    by (simp add: ex_defs)
  note i1 = auth_expiry_is_overwritten [of exAuth exEnv exWorld exFresh "Some (Some 0)" c1 w1,
      THEN conjunct1, THEN mp, OF run1, unfolded t2]
  note i2 = auth_expiry_is_overwritten [of exAuth exEnv exWorld ?c None c2 w2,
      THEN conjunct2, THEN mp, OF run2, unfolded t3]
  from i1 i2 t1 t2 t4 show ?thesis
    by (simp only: run1 run2 option.case prod.case simp_thms)
qed

section \<open>Validation and refresh\<close>

text \<open>
  C1. The claim is that an auth token that is expired, with the csrf secret matching and the
  service allowed to issue tokens, leads to a refresh. What the code does whenever the csrf
  check passes and the auth token is not valid, expired or not: it returns the 401 error
  for a token that is invalid for another reason than expiry, and changes nothing. The
  error tested for expiry is the result of the csrf check, which is nil here. The
  concrete session builds the credentials from wire strings, with a refresh token that
  would pass every check of the refresh, and with the claims held by pointer or by value.
\<close>

theorem expired_auth_token_is_not_refreshed:
  assumes "tokenClaimString (heap w) (AuthToken c) ''csrf'' = Some (CsrfString c)"
    and "authTokenValid c = False"
  shows "validateAndUpdateCredentials env w c =
           Some (Some (newJwtError (ErrorsNew
             ''Auth token is not valid, and not because it has expired'') 401), c, w)"
proof -
  have "validateCsrfStringAgainstCredentials (heap w) c = Some None"
    using assms(1) by (rule csrf_check_passes)
  then show ?thesis
    using assms(2) by (simp add: validateAndUpdateCredentials_def errors_Is_ErrTokenExpired_def)
qed

theorem expired_auth_token_is_not_refreshed_witness:
  "buildCredentialsFromStrings exAuth (exParser True) exWorld exFresh ''s1'' ''auth.expired'' ''refresh.ok'' =
     Some (None,
           exCredentials ''s1'' (PtrMapClaims (Some 0)) (Some ErrTokenExpired) (PtrMapClaims (Some 1)) None
             (exOptions False allValid),
           exWorld) \<and>
   validateAndUpdateCredentials exEnv exWorld
     (exCredentials ''s1'' (PtrMapClaims (Some 0)) (Some ErrTokenExpired) (PtrMapClaims (Some 1)) None
        (exOptions False allValid)) =
     Some (Some (JwtError (ErrorsNew ''Auth token is not valid, and not because it has expired'') 401),
           exCredentials ''s1'' (PtrMapClaims (Some 0)) (Some ErrTokenExpired) (PtrMapClaims (Some 1)) None
             (exOptions False allValid),
           exWorld) \<and>
   (case updateAuthTokenFromRefreshToken exEnv exWorld
           (exCredentials ''s1'' (PtrMapClaims (Some 0)) (Some ErrTokenExpired) (PtrMapClaims (Some 1)) None
              (exOptions False allValid)) of
      None \<Rightarrow> False
    | Some (e, c', w') \<Rightarrow> e = None \<and> CsrfString c' = ''s2'') \<and>
   buildCredentialsFromStrings exAuth (exParser False) exWorld exFresh ''s1'' ''auth.expired'' ''refresh.ok'' =
     Some (None,
           exCredentials ''s1'' (ValMapClaims (Some 0)) (Some ErrTokenExpired) (ValMapClaims (Some 1)) None
             (exOptions False allValid),
           exWorld) \<and>
   validateAndUpdateCredentials exEnv exWorld
     (exCredentials ''s1'' (ValMapClaims (Some 0)) (Some ErrTokenExpired) (ValMapClaims (Some 1)) None
        (exOptions False allValid)) =
     Some (Some (JwtError (ErrorsNew ''Auth token is not valid, and not because it has expired'') 401),
           exCredentials ''s1'' (ValMapClaims (Some 0)) (Some ErrTokenExpired) (ValMapClaims (Some 1)) None
             (exOptions False allValid),
           exWorld)"
proof -
  let ?p = "exCredentials ''s1'' (PtrMapClaims (Some 0)) (Some ErrTokenExpired) (PtrMapClaims (Some 1)) None
              (exOptions False allValid)"
  let ?v = "exCredentials ''s1'' (ValMapClaims (Some 0)) (Some ErrTokenExpired) (ValMapClaims (Some 1)) None
              (exOptions False allValid)"
  have built_p: "buildCredentialsFromStrings exAuth (exParser True) exWorld exFresh ''s1''
                   ''auth.expired'' ''refresh.ok'' = Some (None, ?p, exWorld)"
    by (simp add: buildCredentialsFromStrings_def buildTokenWithClaimsFromString_def keyFunc_def
        GetSigningMethod_def optionsFromAuth_def ex_defs)
  have built_v: "buildCredentialsFromStrings exAuth (exParser False) exWorld exFresh ''s1''
                   ''auth.expired'' ''refresh.ok'' = Some (None, ?v, exWorld)"
    by (simp add: buildCredentialsFromStrings_def buildTokenWithClaimsFromString_def keyFunc_def
        GetSigningMethod_def optionsFromAuth_def ex_defs)
  have h1: "tokenClaimString (heap exWorld) (AuthToken ?p) ''csrf'' = Some (CsrfString ?p)"
    by (simp add: ex_defs read_defs assertPtrMapClaims_def GetClaimString_def)
  have h2: "authTokenValid ?p = False"
    by (simp add: ex_defs authTokenValid_def)
  have run_p: "validateAndUpdateCredentials exEnv exWorld ?p =
     Some (Some (JwtError (ErrorsNew ''Auth token is not valid, and not because it has expired'') 401),
           ?p, exWorld)"
    using expired_auth_token_is_not_refreshed [OF h1 h2, of exEnv]
    by (simp only: newJwtError_def)
  have would: "(case updateAuthTokenFromRefreshToken exEnv exWorld ?p of
      None \<Rightarrow> False
    | Some (e, c', w') \<Rightarrow> e = None \<and> CsrfString c' = ''s2'')"
    by (simp add: ex_defs code_defs)
  have run_v: "validateAndUpdateCredentials exEnv exWorld ?v =
     Some (Some (JwtError (ErrorsNew ''Auth token is not valid, and not because it has expired'') 401),
           ?v, exWorld)"
    by (simp add: ex_defs code_defs)
  from built_p run_p would built_v run_v show ?thesis
    by (intro conjI)
qed

text \<open>
  C6. In a refresh attempt whose refresh token carries the presented csrf secret: when
  \<^verbatim>\<open>CheckTokenId\<close> returns false for the token's id, the result is the 401 error for a
  revoked token, whether or not the refresh token is valid, and nothing but the log of
  calls changes; when the id cannot be read, the result is a 500 error and nothing changes.
  \<^verbatim>\<open>validateAndUpdateCredentials\<close> returns exactly that result whenever it makes the attempt.
\<close>

theorem revocation_is_checked_before_expiry:
  assumes "tokenClaimString (heap w) (RefreshToken c) ''csrf'' = Some (CsrfString c)"
  shows "(tokenClaimString (heap w) (RefreshToken c) ''id'' = Some i \<and>
          CheckTokenId (options c) i = False \<longrightarrow>
            updateAuthTokenFromRefreshToken env w c =
              Some (Some (newJwtError
                      (ErrorsNew ''refresh token has been revoked. Cannot update auth token'') 401),
                    c, w\<lparr>calls := calls w @ [CheckTokenIdCall i]\<rparr>)) \<and>
         (tokenClaimString (heap w) (RefreshToken c) ''id'' = None \<longrightarrow>
            (\<exists>e. updateAuthTokenFromRefreshToken env w c = Some (Some (newJwtError e 500), c, w))) \<and>
         (validateCsrfStringAgainstCredentials (heap w) c = Some (Some j) \<and> Type j = 401 \<and>
          VerifyOnlyServer (options c) = False \<longrightarrow>
            validateAndUpdateCredentials env w c = updateAuthTokenFromRefreshToken env w c)"
proof (intro conjI impI)
  assume "tokenClaimString (heap w) (RefreshToken c) ''id'' = Some i \<and>
          CheckTokenId (options c) i = False"
  with assms show "updateAuthTokenFromRefreshToken env w c =
              Some (Some (newJwtError
                      (ErrorsNew ''refresh token has been revoked. Cannot update auth token'') 401),
                    c, w\<lparr>calls := calls w @ [CheckTokenIdCall i]\<rparr>)"
    by (auto simp: updateAuthTokenFromRefreshToken_def Let_def tokenClaimString_def tokenClaimsRef_def
        split: option.splits sum.splits)
next
  assume "tokenClaimString (heap w) (RefreshToken c) ''id'' = None"
  with assms show "\<exists>e. updateAuthTokenFromRefreshToken env w c = Some (Some (newJwtError e 500), c, w)"
    by (auto simp: updateAuthTokenFromRefreshToken_def Let_def tokenClaimString_def tokenClaimsRef_def
        split: option.splits sum.splits)
next
  assume "validateCsrfStringAgainstCredentials (heap w) c = Some (Some j) \<and> Type j = 401 \<and>
          VerifyOnlyServer (options c) = False"
  then show "validateAndUpdateCredentials env w c = updateAuthTokenFromRefreshToken env w c"
    by (simp add: validateAndUpdateCredentials_def)
qed

theorem revocation_is_checked_before_expiry_witness:
  "validateAndUpdateCredentials exEnv exWorld
     (exCredentials ''s1'' (PtrMapClaims (Some 2)) None (PtrMapClaims (Some 1)) (Some ErrTokenExpired)
        (exOptions False allRevoked)) =
   Some (Some (newJwtError (ErrorsNew ''refresh token has been revoked. Cannot update auth token'') 401),
         exCredentials ''s1'' (PtrMapClaims (Some 2)) None (PtrMapClaims (Some 1)) (Some ErrTokenExpired)
           (exOptions False allRevoked),
         exWorld\<lparr>calls := [CheckTokenIdCall ''u1'']\<rparr>) \<and>
   updateAuthTokenFromRefreshToken exEnv exWorld
     (exCredentials ''s1'' (PtrMapClaims (Some 2)) None (PtrMapClaims (Some 3)) None
        (exOptions False allValid)) =
   Some (Some (newJwtError (ErrorsNew ''claim not found'') 500),
         exCredentials ''s1'' (PtrMapClaims (Some 2)) None (PtrMapClaims (Some 3)) None
           (exOptions False allValid),
         exWorld)"
proof -
  let ?a = "exCredentials ''s1'' (PtrMapClaims (Some 2)) None (PtrMapClaims (Some 1))
              (Some ErrTokenExpired) (exOptions False allRevoked)"
  let ?b = "exCredentials ''s1'' (PtrMapClaims (Some 2)) None (PtrMapClaims (Some 3)) None
              (exOptions False allValid)"
  let ?j = "newJwtError (ErrorsNew ''CSRF token doesn't match value in auth token'') 401"
  have a1: "tokenClaimString (heap exWorld) (RefreshToken ?a) ''csrf'' = Some (CsrfString ?a)"
    by (simp add: ex_defs read_defs assertPtrMapClaims_def GetClaimString_def)
  have a2: "tokenClaimString (heap exWorld) (RefreshToken ?a) ''id'' = Some ''u1'' \<and>
            CheckTokenId (options ?a) ''u1'' = False"
    by (simp add: ex_defs read_defs assertPtrMapClaims_def GetClaimString_def)
  have a3: "validateCsrfStringAgainstCredentials (heap exWorld) ?a = Some (Some ?j) \<and> Type ?j = 401 \<and>
            VerifyOnlyServer (options ?a) = False"
    by (simp add: ex_defs code_defs)
  have a4: "calls exWorld = []"
    by (simp add: ex_defs)
  have b1: "tokenClaimString (heap exWorld) (RefreshToken ?b) ''csrf'' = Some (CsrfString ?b)"
    by (simp add: ex_defs read_defs assertPtrMapClaims_def GetClaimString_def)
  have b2: "tokenClaimString (heap exWorld) (RefreshToken ?b) ''id'' = None"
    by (simp add: ex_defs read_defs assertPtrMapClaims_def GetClaimString_def)
  have b3: "updateAuthTokenFromRefreshToken exEnv exWorld ?b = Some (Some (newJwtError e 500), ?b, exWorld)
            \<Longrightarrow> e = ErrorsNew ''claim not found''" for e
    by (simp add: ex_defs code_defs)
  note ta = revocation_is_checked_before_expiry [OF a1, of "''u1''" exEnv ?j]
  note tb = revocation_is_checked_before_expiry [OF b1, of "''u1''" exEnv ?j]
  have r1: "updateAuthTokenFromRefreshToken exEnv exWorld ?a =
     Some (Some (newJwtError (ErrorsNew ''refresh token has been revoked. Cannot update auth token'') 401),
           ?a, exWorld\<lparr>calls := calls exWorld @ [CheckTokenIdCall ''u1'']\<rparr>)"
    by (rule ta [THEN conjunct1, THEN mp, OF a2])
  have r2: "validateAndUpdateCredentials exEnv exWorld ?a = updateAuthTokenFromRefreshToken exEnv exWorld ?a"
    by (rule ta [THEN conjunct2, THEN conjunct2, THEN mp, OF a3])
  have r3: "exWorld\<lparr>calls := calls exWorld @ [CheckTokenIdCall ''u1'']\<rparr> =
            exWorld\<lparr>calls := [CheckTokenIdCall ''u1'']\<rparr>"
    by (simp add: a4)
  have first: "validateAndUpdateCredentials exEnv exWorld ?a =
     Some (Some (newJwtError (ErrorsNew ''refresh token has been revoked. Cannot update auth token'') 401),
           ?a, exWorld\<lparr>calls := [CheckTokenIdCall ''u1'']\<rparr>)"
    unfolding r2 r1 r3 by (rule refl)
  obtain e where r4: "updateAuthTokenFromRefreshToken exEnv exWorld ?b =
      Some (Some (newJwtError e 500), ?b, exWorld)"
    using tb [THEN conjunct2, THEN conjunct1, THEN mp, OF b2] by (rule exE)
  have second: "updateAuthTokenFromRefreshToken exEnv exWorld ?b =
     Some (Some (newJwtError (ErrorsNew ''claim not found'') 500), ?b, exWorld)"
    using r4 b3 [OF r4] by (simp only:)
  from first second show ?thesis by (rule conjI)
qed

section \<open>Parsing\<close>

text \<open>
  C7, as the code has it. Provided the parser reports an error whenever it yields no
  token, \<^verbatim>\<open>buildTokenWithClaimsFromString\<close> returns a token for every wire string and keeps the
  parser's error. It wraps an empty claim-set exactly when the parser yields no token;
  a token that the parser yields together with an error is kept as it is.
\<close>

theorem parse_keeps_the_parser_result:
  assumes "ParseWithClaims s (keyFunc c key) h = (tok, perr, h')"
    and "tok = None \<longrightarrow> perr \<noteq> None"
  shows "buildTokenWithClaimsFromString ParseWithClaims c h s key validTime =
           Some (\<lparr>Token = Some (case tok of
                                 None \<Rightarrow> \<lparr>Method = None, Claims = PtrMapClaims None, Valid = False\<rparr>
                               | Some t \<Rightarrow> t),
                  ParseErr = perr,
                  options = \<lparr>ValidTime = validTime,
                             SigningMethodString = SigningMethodString (options c),
                             Debug = Debug (options c)\<rparr>\<rparr>, h') \<and>
         (tok = None \<longrightarrow>
            (\<exists>jt t. buildTokenWithClaimsFromString ParseWithClaims c h s key validTime = Some (jt, h') \<and>
                    Token jt = Some t \<and> claimsTable h' (Claims t) = Map.empty \<and> Valid t = False \<and>
                    ParseErr jt = perr \<and> perr \<noteq> None))"
  using assms
  by (auto simp: buildTokenWithClaimsFromString_def claimsTable_def split: option.splits)

theorem parse_keeps_the_parser_result_witness:
  "buildTokenWithClaimsFromString exMalformed exFresh exHeap ''garbage'' ''k'' 1000000000 =
     Some (\<lparr>Token = Some \<lparr>Method = None, Claims = PtrMapClaims None, Valid = False\<rparr>,
            ParseErr = Some (ExternalError ''token contains an invalid number of segments''),
            options = \<lparr>ValidTime = 1000000000, SigningMethodString = ''HS256'', Debug = False\<rparr>\<rparr>, exHeap) \<and>
   claimsTable exHeap (PtrMapClaims None) = Map.empty"
proof -
  have h1: "exMalformed ''garbage'' (keyFunc exFresh ''k'') exHeap =
     (None, Some (ExternalError ''token contains an invalid number of segments''), exHeap)"
    by (simp add: exMalformed_def)
  have h2: "(None :: Token option) = None \<longrightarrow>
     Some (ExternalError ''token contains an invalid number of segments'') \<noteq> None"
    by simp
  have h3: "SigningMethodString (options exFresh) = ''HS256'' \<and> Debug (options exFresh) = False"
    by (simp add: exFresh_def exOptions_def)
  have h4: "claimsTable exHeap (PtrMapClaims None) = Map.empty"
    by (simp add: claimsTable_def)
  have "buildTokenWithClaimsFromString exMalformed exFresh exHeap ''garbage'' ''k'' 1000000000 =
     Some (\<lparr>Token = Some (case (None :: Token option) of
                           None \<Rightarrow> \<lparr>Method = None, Claims = PtrMapClaims None, Valid = False\<rparr>
                         | Some t \<Rightarrow> t),
            ParseErr = Some (ExternalError ''token contains an invalid number of segments''),
            options = \<lparr>ValidTime = 1000000000,
                       SigningMethodString = SigningMethodString (options exFresh),
                       Debug = Debug (options exFresh)\<rparr>\<rparr>, exHeap)"
    by (rule parse_keeps_the_parser_result
          [where ParseWithClaims = exMalformed and c = exFresh and h = exHeap and tok = None and h' = exHeap,
           OF h1 h2, THEN conjunct1])
  then have "buildTokenWithClaimsFromString exMalformed exFresh exHeap ''garbage'' ''k'' 1000000000 =
     Some (\<lparr>Token = Some \<lparr>Method = None, Claims = PtrMapClaims None, Valid = False\<rparr>,
            ParseErr = Some (ExternalError ''token contains an invalid number of segments''),
            options = \<lparr>ValidTime = 1000000000, SigningMethodString = ''HS256'', Debug = False\<rparr>\<rparr>, exHeap)"
    by (simp add: h3)
  with h4 show ?thesis by (rule conjI [rotated])
qed

text \<open>
  C7, as the claim states it, fails: when the parser hands back the token whose signature it
  found wrong, the token built from it keeps the decoded claims beside the error.
\<close>

theorem failed_parse_keeps_claims_counterexample:
  "(case buildTokenWithClaimsFromString exSignatureFails exFresh exHeap ''h.p.x'' ''k'' 1000000000 of
      None \<Rightarrow> False
    | Some (jt, h') \<Rightarrow>
        ParseErr jt = Some (ExternalError ''token signature is invalid'') \<and>
        (case Token jt of
           None \<Rightarrow> False
         | Some t \<Rightarrow> Valid t = False \<and> claimsTable h' (Claims t) ''csrf'' = Some (VString ''s1'')))"
  by (simp add: buildTokenWithClaimsFromString_def exSignatureFails_def claimsTable_def exHeap_def)

end
